theory Spec2Isabelle
  imports Complex_Main "HOL-Library.AList"
begin

section \<open>Python values\<close>

text \<open>
  A Python \<open>bytes\<close> object is a list of 8-bit characters. A Python \<open>str\<close> is
  represented by its UTF-8 encoding, also a list of 8-bit characters: concatenation and
  the substring test \<open>in\<close> agree with Python's on that representation, and
  \<open>str.encode()\<close> is the identity.
\<close>

type_synonym bytes = string

text \<open>
  A Python \<open>float\<close> is a real number (a dyadic rational), an infinity or a NaN. Only
  the truncation done by \<open>int()\<close> is used below, and it is exact.
\<close>

datatype pyfloat = Finite real | Infinity | NegInfinity | NaN

text \<open>The values \<open>json.loads\<close> returns; a \<open>dict\<close> keeps its insertion order.\<close>

datatype json =
    JNull
  | JBool bool
  | JInt int
  | JFloat pyfloat
  | JStr string
  | JList "json list"
  | JDict "(string \<times> json) list"

text \<open>
  Exceptions. An \<open>HttpError\<close> is a \<open>NotFoundError()\<close>, a \<open>BadRequestError(message)\<close>
  or an instance of another subclass, with its \<open>status_code\<close> and \<open>message\<close>;
  \<open>Exception\<close> stands for every exception that is not an \<open>HttpError\<close>, named by its
  class.
\<close>

datatype http_error =
    NotFoundError
  | BadRequestError string
  | OtherHttpError int string

datatype exn =
    HttpError http_error
  | Exception string

section \<open>Chunking (\<open>chunked\<close>, nested in \<open>serve\<close>)\<close>

text \<open>
  \<open>range(start, stop, step)\<close>: the arithmetic progression from \<open>start\<close> that stops
  before \<open>stop\<close>; a zero step raises \<open>ValueError\<close>.
\<close>

function range_from :: "int \<Rightarrow> int \<Rightarrow> int \<Rightarrow> int list" where
  "range_from i stop step =
     (if (0 < step \<and> i < stop) \<or> (step < 0 \<and> stop < i)
      then i # range_from (i + step) stop step else [])"
  by pat_completeness auto
termination
  by (relation "measure (\<lambda>(i, stop, step). nat (if 0 < step then stop - i else i - stop))") auto

declare range_from.simps [simp del]

definition py_range :: "int \<Rightarrow> int \<Rightarrow> int \<Rightarrow> exn + int list" where
  "py_range start stop step =
     (if step = 0 then Inl (Exception ''ValueError'') else Inr (range_from start stop step))"

text \<open>
  The slice \<open>xs[i : j]\<close>: a negative index counts from the end, and both indices are
  clamped to the length.
\<close>

definition slice_index :: "nat \<Rightarrow> int \<Rightarrow> nat" where
  "slice_index n i = (let k = (if i < 0 then i + int n else i) in nat (min (max k 0) (int n)))"

definition py_slice :: "'a list \<Rightarrow> int \<Rightarrow> int \<Rightarrow> 'a list" where
  "py_slice xs i j =
     (let lo = slice_index (length xs) i; hi = slice_index (length xs) j
      in take (hi - lo) (drop lo xs))"

text \<open>
  \<^verbatim>\<open>
  def chunked(size, source):
      for i in range(0, len(source), size):
          yield bytes(source[i : i + size])
  \<close>
  The generator is run to its end: the result is the list of the chunks it yields, or the
  exception it raises.
\<close>

definition chunked :: "int \<Rightarrow> bytes \<Rightarrow> exn + bytes list" where
  "chunked size' source =
     (case py_range 0 (int (length source)) size' of
        Inl e \<Rightarrow> Inl e
      | Inr idxs \<Rightarrow> Inr (map (\<lambda>i. py_slice source i (i + size')) idxs))"

section \<open>The standard library\<close>

subsection \<open>Dictionaries and strings\<close>

text \<open>
  \<open>dict(items)\<close>: a later item with a key already present replaces the value and keeps
  the key's position.
\<close>

definition py_dict :: "('k \<times> 'v) list \<Rightarrow> ('k \<times> 'v) list" where
  "py_dict items = fold (\<lambda>(k, v) d. AList.update k v d) items []"

text \<open>\<open>del d[key]\<close> raises \<open>KeyError\<close> when the key is missing.\<close>

definition dict_delitem :: "('k \<times> 'v) list \<Rightarrow> 'k \<Rightarrow> exn + ('k \<times> 'v) list" where
  "dict_delitem d key =
     (case map_of d key of
        None \<Rightarrow> Inl (Exception ''KeyError'')
      | Some _ \<Rightarrow> Inr (AList.delete key d))"

text \<open>\<open>sub in s\<close> on strings: \<open>sub\<close> occurs in \<open>s\<close> as a contiguous substring.\<close>

fun str_in :: "string \<Rightarrow> string \<Rightarrow> bool" where
  "str_in sub [] = (sub = [])"
| "str_in sub (c # cs) = (take (length sub) (c # cs) = sub \<or> str_in sub cs)"

text \<open>
  \<open>s.lower()\<close> on ASCII letters. The views never lower-case; the header container of a
  response compares names this way.
\<close>

definition ascii_lower :: "string \<Rightarrow> string" where
  "ascii_lower s =
     map (\<lambda>c. if 65 \<le> (of_char c :: nat) \<and> (of_char c :: nat) \<le> 90
                then char_of ((of_char c :: nat) + 32) else c) s"

subsection \<open>\<open>repr\<close> of a bytes object\<close>

text \<open>
  An f-string renders a \<open>bytes\<close> value by its \<open>repr\<close>: \<open>b'...'\<close>, in double quotes when
  the bytes hold a single quote and no double quote, with the quote and the backslash
  escaped, \<open>\t\<close>, \<open>\n\<close>, \<open>\r\<close> for those three, and \<open>\xhh\<close> for every other byte
  outside the printable ASCII range.
\<close>

definition hex_digit :: "nat \<Rightarrow> char" where
  "hex_digit n = (if n < 10 then char_of (48 + n) else char_of (87 + n))"

definition repr_byte :: "char \<Rightarrow> char \<Rightarrow> string" where
  "repr_byte quote c =
     (let n = (of_char c :: nat) in
      if c = quote \<or> c = CHR 0x5C then [CHR 0x5C, c]
      else if n = 9 then [CHR 0x5C, CHR ''t'']
      else if n = 10 then [CHR 0x5C, CHR ''n'']
      else if n = 13 then [CHR 0x5C, CHR ''r'']
      else if n < 32 \<or> 127 \<le> n then [CHR 0x5C, CHR ''x'', hex_digit (n div 16), hex_digit (n mod 16)]
      else [c])"

definition bytes_repr :: "bytes \<Rightarrow> string" where
  "bytes_repr b =
     (let quote = (if CHR 0x27 \<in> set b \<and> CHR 0x22 \<notin> set b then CHR 0x22 else CHR 0x27)
      in ''b'' @ [quote] @ concat (map (repr_byte quote) b) @ [quote])"

subsection \<open>Base64\<close>

definition b64_alphabet :: string where
  "b64_alphabet = ''ABCDEFGHIJKLMNOPQRSTUVWXYZabcdefghijklmnopqrstuvwxyz0123456789+/''"

definition b64_char :: "nat \<Rightarrow> char" where
  "b64_char v = b64_alphabet ! v"

definition b64_value :: "char \<Rightarrow> nat option" where
  "b64_value c = map_of (zip b64_alphabet [0 ..< 64]) c"

text \<open>
  \<open>base64.b64encode\<close> (RFC 4648): three bytes become four characters of the alphabet; a
  last group of one or two bytes is padded with \<open>=\<close>.
\<close>

fun b64encode :: "bytes \<Rightarrow> bytes" where
  "b64encode [] = []"
| "b64encode [a] =
     (let x = (of_char a :: nat)
      in [b64_char (x div 4), b64_char (x mod 4 * 16), CHR ''='', CHR ''=''])"
| "b64encode [a, b] =
     (let x = (of_char a :: nat); y = (of_char b :: nat)
      in [b64_char (x div 4), b64_char (x mod 4 * 16 + y div 16), b64_char (y mod 16 * 4),
          CHR ''=''])"
| "b64encode (a # b # c # rest) =
     (let x = (of_char a :: nat); y = (of_char b :: nat); z = (of_char c :: nat)
      in [b64_char (x div 4), b64_char (x mod 4 * 16 + y div 16),
          b64_char (y mod 16 * 4 + z div 64), b64_char (z mod 64)] @ b64encode rest)"

text \<open>
  \<open>base64.b64decode(s)\<close> with its default \<open>validate=False\<close>, that is
  \<open>binascii.a2b_base64\<close> in its non-strict mode. The state is the position in the current
  group of four (\<open>quad_pos\<close>), the bits left over from the last character (\<open>leftchar\<close>) and
  the number of padding characters seen since the last data character (\<open>pads\<close>).
  Characters outside the alphabet are skipped; padding that completes a group ends the
  decoding; an input that ends inside a group raises \<open>binascii.Error\<close> (\<open>None\<close>).
\<close>

fun a2b_base64 :: "nat \<Rightarrow> nat \<Rightarrow> nat \<Rightarrow> bytes \<Rightarrow> bytes option" where
  "a2b_base64 quad_pos leftchar pads [] = (if quad_pos = 0 then Some [] else None)"
| "a2b_base64 quad_pos leftchar pads (this_ch # rest) =
     (if this_ch = CHR ''='' then
        (if 2 \<le> quad_pos \<and> 4 \<le> quad_pos + (pads + 1) then Some []
         else a2b_base64 quad_pos leftchar (if 2 \<le> quad_pos then pads + 1 else pads) rest)
      else
        (case b64_value this_ch of
           None \<Rightarrow> a2b_base64 quad_pos leftchar pads rest
         | Some v \<Rightarrow>
            (if quad_pos = 0 then a2b_base64 1 v 0 rest
             else if quad_pos = 1 then
               map_option ((#) (char_of (leftchar * 4 + v div 16))) (a2b_base64 2 (v mod 16) 0 rest)
             else if quad_pos = 2 then
               map_option ((#) (char_of (leftchar * 16 + v div 4))) (a2b_base64 3 (v mod 4) 0 rest)
             else
               map_option ((#) (char_of (leftchar * 64 + v))) (a2b_base64 0 0 0 rest))))"

definition b64decode :: "bytes \<Rightarrow> bytes option" where
  "b64decode s = a2b_base64 0 0 0 s"

subsection \<open>JSON values, \<open>int()\<close>\<close>

text \<open>
  \<open>v[key]\<close> with a string key: only a \<open>dict\<close> that holds the key has an item; a missing
  key raises \<open>KeyError\<close>, any other value \<open>TypeError\<close> (\<open>None\<close> for both).
\<close>

definition getitem :: "json \<Rightarrow> string \<Rightarrow> json option" where
  "getitem v key = (case v of JDict d \<Rightarrow> map_of d key | _ \<Rightarrow> None)"

text \<open>\<open>v.encode()\<close>: only a \<open>str\<close> has the method (\<open>AttributeError\<close> otherwise).\<close>

definition encode :: "json \<Rightarrow> bytes option" where
  "encode v = (case v of JStr s \<Rightarrow> Some s | _ \<Rightarrow> None)"

text \<open>
  \<open>int(f)\<close> of a float truncates towards zero; an infinity raises \<open>OverflowError\<close>, a
  NaN \<open>ValueError\<close>.
\<close>

definition float_int :: "pyfloat \<Rightarrow> int option" where
  "float_int f = (case f of Finite r \<Rightarrow> Some (if 0 \<le> r then \<lfloor>r\<rfloor> else \<lceil>r\<rceil>) | _ \<Rightarrow> None)"

text \<open>
  What the program takes from the standard library as it finds it: \<open>bytes.decode()\<close>
  (UTF-8), \<open>json.loads\<close> and \<open>int()\<close> of a string, each \<open>None\<close> where the call raises.
\<close>

record python =
  decode :: "bytes \<Rightarrow> string option"
  json_loads :: "string \<Rightarrow> json option"
  int_str :: "string \<Rightarrow> int option"

text \<open>
  \<open>int(v)\<close>: an \<open>int\<close> is itself, a \<open>bool\<close> is 0 or 1, a float is truncated, a string is
  parsed; \<open>None\<close>, a list and a dict raise \<open>TypeError\<close>.
\<close>

definition py_int :: "python \<Rightarrow> json \<Rightarrow> int option" where
  "py_int py v =
     (case v of
        JInt n \<Rightarrow> Some n
      | JBool b \<Rightarrow> Some (if b then 1 else 0)
      | JFloat f \<Rightarrow> float_int f
      | JStr s \<Rightarrow> int_str py s
      | _ \<Rightarrow> None)"

section \<open>The modules that \<open>mediaserver.py\<close> imports\<close>

text \<open>
  The Flask request: its path, its headers as (name, value) pairs, and its body.
\<close>

record request =
  request_path :: string
  request_headers :: "(string \<times> string) list"
  request_data :: bytes

text \<open>
  A response: the status code, the headers as (name, value) pairs in the order of the
  container, \<open>Content-Type\<close> among them, and the body, which is the run of a generator of
  chunks or a JSON value.
\<close>

datatype body = Chunks "exn + bytes list" | Json json

record response =
  status_code :: int
  response_headers :: "(string \<times> string) list"
  response_body :: body

text \<open>
  The constants and the delegate that the program reads from modules outside
  \<open>mediaserver.py\<close>: \<open>app.config["BLOCK_SIZE"]\<close> (set by \<open>init_config\<close>),
  \<open>auth.AUTH_HEADER\<close>, the message of a \<open>NotFoundError()\<close> built without arguments, and
  \<open>auth.check_mediafile_id\<close>, which answers \<open>(ok, filename, auth_header)\<close> or raises.
\<close>

record env =
  BLOCK_SIZE :: int
  AUTH_HEADER :: string
  not_found_message :: string
  check_mediafile_id :: "int \<Rightarrow> (string \<times> string) list \<Rightarrow> exn + bool \<times> string \<times> string option"

text \<open>
  Modelled from the spec: the \<open>status_code\<close> of an \<open>HttpError\<close>, set by the classes of
  \<open>exceptions.py\<close>, which is not among the sources. The spec gives each typed failure a
  status code: 404 for the not-found kind, 400 for the bad-request kind.
\<close>

definition error_status_code :: "http_error \<Rightarrow> int" where
  "error_status_code error =
     (case error of NotFoundError \<Rightarrow> 404 | BadRequestError _ \<Rightarrow> 400 | OtherHttpError c _ \<Rightarrow> c)"

text \<open>
  Modelled from the spec: the \<open>message\<close> of an \<open>HttpError\<close>, set by the classes of
  \<open>exceptions.py\<close>. The spec's error envelope carries the failure's message string: the
  one given to the constructor, and for \<open>NotFoundError()\<close> the class's own.
\<close>

definition error_message :: "env \<Rightarrow> http_error \<Rightarrow> string" where
  "error_message env error =
     (case error of
        NotFoundError \<Rightarrow> not_found_message env
      | BadRequestError m \<Rightarrow> m
      | OtherHttpError _ m \<Rightarrow> m)"

text \<open>
  The store of \<open>database.py\<close>, which is not among the sources: the spec's BlobStore is a
  key-value persistence of (id \<rightarrow> bytes, mimetype). The mimetype is kept as the JSON value
  \<open>upload\<close> hands over.
\<close>

type_synonym database = "int \<rightharpoonup> bytes \<times> json"

text \<open>
  Modelled from the spec: \<open>Database.get_mediafile\<close>, the spec's
  \<open>get(id) -> (bytes, mimetype)\<close>, which fails with the not-found kind if no blob exists
  for the id, with the same external signal as a denial by the delegate. It reads the
  store and leaves it as it is.
\<close>

definition get_mediafile :: "database \<Rightarrow> int \<Rightarrow> exn + bytes \<times> json" where
  "get_mediafile database media_id =
     (case database media_id of
        None \<Rightarrow> Inl (HttpError NotFoundError)
      | Some blob \<Rightarrow> Inr blob)"

text \<open>
  Modelled from the spec: \<open>Database.set_mediafile\<close>, the spec's
  \<open>put(id, bytes, mimetype) -> void\<close>, which overwrites any existing blob for the id.
\<close>

definition set_mediafile :: "database \<Rightarrow> int \<Rightarrow> bytes \<Rightarrow> json \<Rightarrow> database" where
  "set_mediafile database media_id media mimetype = database(media_id \<mapsto> (media, mimetype))"

subsection \<open>Flask and werkzeug: headers and responses\<close>

text \<open>
  \<open>response.headers[key] = value\<close> (werkzeug's \<open>Headers.set\<close>): a value that holds a
  carriage return or a line feed raises \<open>ValueError\<close>; header names are compared in lower
  case; the first header of that name is replaced where it stands and every later one is
  removed; when there is none, the header is appended.
\<close>

definition has_newline :: "string \<Rightarrow> bool" where
  "has_newline v = (CHR 0x0A \<in> set v \<or> CHR 0x0D \<in> set v)"

fun headers_replace :: "string \<Rightarrow> string \<Rightarrow> (string \<times> string) list \<Rightarrow> (string \<times> string) list" where
  "headers_replace key v [] = [(key, v)]"
| "headers_replace key v ((old_key, old_value) # rest) =
     (if ascii_lower old_key = ascii_lower key
      then (key, v) # filter (\<lambda>(k, w). ascii_lower k \<noteq> ascii_lower key) rest
      else (old_key, old_value) # headers_replace key v rest)"

definition set_header :: "response \<Rightarrow> string \<Rightarrow> string \<Rightarrow> exn + response" where
  "set_header response key v =
     (if has_newline v then Inl (Exception ''ValueError'')
      else Inr (response\<lparr>response_headers := headers_replace key v (response_headers response)\<rparr>))"

text \<open>\<open>headers.get(key)\<close>: the value of the first header of that name, in any letter case.\<close>

fun get_header :: "(string \<times> string) list \<Rightarrow> string \<Rightarrow> string option" where
  "get_header [] key = None"
| "get_header ((k, v) # rest) key =
     (if ascii_lower k = ascii_lower key then Some v else get_header rest key)"

text \<open>
  werkzeug's \<open>get_content_type(mimetype, "utf-8")\<close>: the charset parameter is appended to a
  mimetype that starts with \<open>text/\<close>, ends with \<open>+xml\<close> or is one of a fixed list.
\<close>

definition charset_mimetypes :: "string list" where
  "charset_mimetypes =
     [''application/ecmascript'', ''application/javascript'', ''application/sql'',
      ''application/xml'', ''application/xml-dtd'', ''application/xml-external-parsed-entity'']"

definition get_content_type :: "string \<Rightarrow> string" where
  "get_content_type mimetype =
     (if take 5 mimetype = ''text/'' \<or> mimetype \<in> set charset_mimetypes
         \<or> drop (length mimetype - 4) mimetype = ''+xml''
      then mimetype @ ''; charset=utf-8'' else mimetype)"

text \<open>
  The \<open>Content-Type\<close> that \<open>Response(..., mimetype=mimetype)\<close> computes: Flask's default
  \<open>text/html\<close> stands in for \<open>None\<close>; a mimetype that is not a string has no
  \<open>startswith\<close> (\<open>AttributeError\<close>).
\<close>

definition content_type_for :: "json \<Rightarrow> exn + string" where
  "content_type_for mimetype =
     (case mimetype of
        JNull \<Rightarrow> Inr (get_content_type ''text/html'')
      | JStr m \<Rightarrow> Inr (get_content_type m)
      | _ \<Rightarrow> Inl (Exception ''AttributeError''))"

text \<open>
  \<open>Response(chunks, mimetype=mimetype)\<close>: status 200, and the content type set as a
  header, which raises as every header assignment does.
\<close>

definition Response :: "exn + bytes list \<Rightarrow> json \<Rightarrow> exn + response" where
  "Response chunks mimetype =
     (case content_type_for mimetype of
        Inl e \<Rightarrow> Inl e
      | Inr content_type \<Rightarrow>
          set_header \<lparr>status_code = 200, response_headers = [], response_body = Chunks chunks\<rparr>
            ''Content-Type'' content_type)"

text \<open>\<open>jsonify(content)\<close>: status 200 and the content type \<open>application/json\<close>.\<close>

definition jsonify :: "json \<Rightarrow> response" where
  "jsonify content =
     \<lparr>status_code = 200, response_headers = [(''Content-Type'', ''application/json'')],
      response_body = Json content\<rparr>"

section \<open>\<open>mediaserver.py\<close>\<close>

text \<open>
  \<^verbatim>\<open>
  @app.errorhandler(HttpError)
  def handle_view_error(error):
      app.logger.error(...)
      res_content = {"success": False, "message": error.message}
      response = jsonify(res_content)
      response.status_code = error.status_code
      return response
  \<close>
  Logging is not modelled: no result and no store content depends on it.
\<close>

definition handle_view_error :: "env \<Rightarrow> http_error \<Rightarrow> response" where
  "handle_view_error env error =
     (let res_content = JDict [(''success'', JBool False), (''message'', JStr (error_message env error))];
          response = jsonify res_content
      in response\<lparr>status_code := error_status_code error\<rparr>)"

text \<open>
  \<open>handle_general_errors\<close> wraps a view: an exception is logged and raised again, so the
  wrapped view returns what the view returns.
\<close>

definition handle_general_errors :: "('a \<Rightarrow> (exn + response) \<times> database) \<Rightarrow> 'a \<Rightarrow> (exn + response) \<times> database" where
  "handle_general_errors fn args =
     (case fn args of
        (Inl e, database) \<Rightarrow> (Inl e, database)
      | (Inr response, database) \<Rightarrow> (Inr response, database))"

text \<open>
  The first lines of \<open>serve\<close>:
  \<^verbatim>\<open>
  presenter_headers = dict(request.headers)
  del_keys = [key for key in presenter_headers if "content" in key]
  for key in del_keys:
      del presenter_headers[key]
  \<close>
\<close>

fun del_each :: "string list \<Rightarrow> (string \<times> string) list \<Rightarrow> exn + (string \<times> string) list" where
  "del_each [] presenter_headers = Inr presenter_headers"
| "del_each (key # del_keys) presenter_headers =
     (case dict_delitem presenter_headers key of
        Inl e \<Rightarrow> Inl e
      | Inr presenter_headers' \<Rightarrow> del_each del_keys presenter_headers')"

definition presenter_headers :: "request \<Rightarrow> exn + (string \<times> string) list" where
  "presenter_headers request =
     (let presenter_headers = py_dict (request_headers request);
          del_keys = filter (\<lambda>key. str_in ''content'' key) (map fst presenter_headers)
      in del_each del_keys presenter_headers)"

text \<open>
  \<^verbatim>\<open>
  def serve(mediafile_id):
      ...
      ok, filename, auth_header = check_mediafile_id(mediafile_id, app, presenter_headers)
      if not ok:
          raise NotFoundError()
      data, mimetype = database.get_mediafile(mediafile_id)
      ...
      block_size = app.config["BLOCK_SIZE"]
      response = Response(chunked(block_size, data), mimetype=mimetype)
      response.headers["Content-Disposition"] = f'inline; filename="{filename}"'
      if auth_header:
          response.headers[AUTH_HEADER] = auth_header
      return response
  \<close>
  The view takes the database and returns it with its result. \<open>if auth_header\<close> is
  Python's truth test: \<open>None\<close> and the empty string are false. The construction of the
  response and each header assignment may raise, and the exception leaves the view.
\<close>

definition truthy :: "string option \<Rightarrow> bool" where
  "truthy v = (case v of None \<Rightarrow> False | Some s \<Rightarrow> s \<noteq> [])"

definition serve :: "env \<Rightarrow> request \<Rightarrow> database \<Rightarrow> int \<Rightarrow> (exn + response) \<times> database" where
  "serve env request database mediafile_id =
     (case presenter_headers request of
        Inl e \<Rightarrow> (Inl e, database)
      | Inr hdrs \<Rightarrow>
         (case check_mediafile_id env mediafile_id hdrs of
            Inl e \<Rightarrow> (Inl e, database)
          | Inr (ok, filename, auth_header) \<Rightarrow>
             if \<not> ok then (Inl (HttpError NotFoundError), database)
             else
               (case get_mediafile database mediafile_id of
                  Inl e \<Rightarrow> (Inl e, database)
                | Inr (data, mimetype) \<Rightarrow>
                   (let block_size = BLOCK_SIZE env in
                    case Response (chunked block_size data) mimetype of
                      Inl e \<Rightarrow> (Inl e, database)
                    | Inr response \<Rightarrow>
                       (case set_header response ''Content-Disposition''
                               (''inline; filename=\"'' @ filename @ ''\"'') of
                          Inl e \<Rightarrow> (Inl e, database)
                        | Inr response \<Rightarrow>
                           if truthy auth_header then
                             (case set_header response (AUTH_HEADER env) (the auth_header) of
                                Inl e \<Rightarrow> (Inl e, database)
                              | Inr response \<Rightarrow> (Inr response, database))
                           else (Inr response, database))))))"

text \<open>
  \<^verbatim>\<open>
  def upload():
      try:
          decoded = request.data.decode()
          dejson = json.loads(decoded)
      except Exception:
          raise BadRequestError("request.data is not json")
      try:
          media = base64.b64decode(dejson["file"].encode())
      except Exception:
          raise BadRequestError("cannot decode base64 file")
      try:
          media_id = int(dejson["id"])
          mimetype = dejson["mimetype"]
      except Exception:
          raise BadRequestError(
              f"The post request.data is not in right format: {request.data}"
          )
      database.set_mediafile(media_id, media, mimetype)
      return {"success": True}, 200
  \<close>
  Each \<open>try\<close> block is a computation in \<open>option\<close>; \<open>None\<close> is the exception its
  \<open>except\<close> clause catches.
\<close>

definition try_json :: "python \<Rightarrow> request \<Rightarrow> json option" where
  "try_json py request = Option.bind (decode py (request_data request)) (json_loads py)"

definition try_media :: "json \<Rightarrow> bytes option" where
  "try_media dejson = Option.bind (Option.bind (getitem dejson ''file'') encode) b64decode"

definition try_id_mimetype :: "python \<Rightarrow> json \<Rightarrow> (int \<times> json) option" where
  "try_id_mimetype py dejson =
     Option.bind (Option.bind (getitem dejson ''id'') (py_int py))
       (\<lambda>media_id. map_option (Pair media_id) (getitem dejson ''mimetype''))"

definition upload :: "python \<Rightarrow> request \<Rightarrow> database \<Rightarrow> (exn + response) \<times> database" where
  "upload py request database =
     (case try_json py request of
        None \<Rightarrow> (Inl (HttpError (BadRequestError ''request.data is not json'')), database)
      | Some dejson \<Rightarrow>
         (case try_media dejson of
            None \<Rightarrow> (Inl (HttpError (BadRequestError ''cannot decode base64 file'')), database)
          | Some media \<Rightarrow>
             (case try_id_mimetype py dejson of
                None \<Rightarrow>
                  (Inl (HttpError (BadRequestError
                     (''The post request.data is not in right format: ''
                        @ bytes_repr (request_data request)))),
                   database)
              | Some (media_id, mimetype) \<Rightarrow>
                  (Inr ((jsonify (JDict [(''success'', JBool True)]))\<lparr>status_code := 200\<rparr>),
                   set_mediafile database media_id media mimetype))))"

text \<open>
  The two routes as Flask serves them: the view under \<open>handle_general_errors\<close>, and an
  \<open>HttpError\<close> that leaves it rendered by the registered handler \<open>handle_view_error\<close>.
  Any other exception is left to the framework.
\<close>

definition dispatch :: "env \<Rightarrow> (exn + response) \<times> database \<Rightarrow> (exn + response) \<times> database" where
  "dispatch env result =
     (case result of
        (Inl (HttpError error), database) \<Rightarrow> (Inr (handle_view_error env error), database)
      | (Inl (Exception c), database) \<Rightarrow> (Inl (Exception c), database)
      | (Inr response, database) \<Rightarrow> (Inr response, database))"

definition route_get :: "env \<Rightarrow> request \<Rightarrow> database \<Rightarrow> int \<Rightarrow> (exn + response) \<times> database" where
  "route_get env request database mediafile_id =
     dispatch env (handle_general_errors (serve env request database) mediafile_id)"

definition route_upload :: "env \<Rightarrow> python \<Rightarrow> request \<Rightarrow> database \<Rightarrow> (exn + response) \<times> database" where
  "route_upload env py request database =
     dispatch env (handle_general_errors (upload py request) database)"

section \<open>A concrete deployment, for the examples\<close>

text \<open>
  A configuration whose delegate grants access to mediafile 42 only, with the display
  name \<open>logo.png\<close> and the credential \<open>token\<close>.
\<close>

definition example_env :: env where
  "example_env =
     \<lparr>BLOCK_SIZE = 4, AUTH_HEADER = ''Authentication'', not_found_message = ''Not found'',
      check_mediafile_id =
        (\<lambda>mediafile_id hdrs. Inr (mediafile_id = 42, ''logo.png'', Some ''token''))\<rparr>"

text \<open>A delegate that gives the same answer to every call.\<close>

definition answering ::
  "bool \<times> string \<times> string option \<Rightarrow> int \<Rightarrow> (string \<times> string) list
     \<Rightarrow> exn + bool \<times> string \<times> string option" where
  "answering answer mediafile_id hdrs = Inr answer"

text \<open>The same deployment with a delegate that grants access and returns the empty credential.\<close>

definition example_env_empty_credential :: env where
  "example_env_empty_credential =
     example_env\<lparr>check_mediafile_id := answering (True, ''logo.png'', Some [])\<rparr>"

text \<open>
  The request body \<open>{"id": 42, "mimetype": "image/png\ntext/html", "file": "aGk="}\<close>, whose
  mimetype holds an escaped line feed.
\<close>

definition newline_mimetype_body :: bytes where
  "newline_mimetype_body =
     ''{\"id\": 42, \"mimetype\": \"image/png'' @ [CHR 0x5C] @ ''ntext/html\", \"file\": \"aGk=\"}''"

text \<open>
  The standard library on the request bodies of the examples: what \<open>json.loads\<close> returns
  for each of them (every other text is taken not to parse), and \<open>int("-5")\<close>. The
  bodies are ASCII, which \<open>decode()\<close> leaves as it is.
\<close>

definition example_python :: python where
  "example_python =
     \<lparr>decode = Some,
      json_loads = map_of
        [(''{\"id\": 42, \"mimetype\": \"image/png\", \"file\": \"aGk=\"}'',
            JDict [(''id'', JInt 42), (''mimetype'', JStr ''image/png''), (''file'', JStr ''aGk='')]),
         (''{\"id\": -5, \"mimetype\": \"image/png\", \"file\": \"aGk=\"}'',
            JDict [(''id'', JInt (- 5)), (''mimetype'', JStr ''image/png''), (''file'', JStr ''aGk='')]),
         (''{\"id\": \"-5\", \"mimetype\": \"image/png\", \"file\": \"aGk=\"}'',
            JDict [(''id'', JStr ''-5''), (''mimetype'', JStr ''image/png''), (''file'', JStr ''aGk='')]),
         (''{\"id\": 3.75, \"mimetype\": \"image/png\", \"file\": \"aGk=\"}'',
            JDict [(''id'', JFloat (Finite 3.75)), (''mimetype'', JStr ''image/png''),
                   (''file'', JStr ''aGk='')]),
         (''{\"id\": 42, \"mimetype\": \"image/png\", \"file\": \"aGk\"}'',
            JDict [(''id'', JInt 42), (''mimetype'', JStr ''image/png''), (''file'', JStr ''aGk'')]),
         (''{\"mimetype\": \"image/png\", \"file\": \"aGk=\"}'',
            JDict [(''mimetype'', JStr ''image/png''), (''file'', JStr ''aGk='')]),
         (''{}'', JDict []),
         (''{\"id\": 42, \"mimetype\": \"text/plain\", \"file\": \"aGVsbG8gd29ybGQ=\"}'',
            JDict [(''id'', JInt 42), (''mimetype'', JStr ''text/plain''),
                   (''file'', JStr ''aGVsbG8gd29ybGQ='')]),
         (''{\"id\": 42, \"mimetype\": \"image/png\", \"file\": \"!!!!\"}'',
            JDict [(''id'', JInt 42), (''mimetype'', JStr ''image/png''), (''file'', JStr ''!!!!'')]),
         (newline_mimetype_body,
            JDict [(''id'', JInt 42), (''mimetype'', JStr (''image/png'' @ [CHR 0x0A] @ ''text/html'')),
                   (''file'', JStr ''aGk='')])],
      int_str = map_of [(''-5'', - 5)]\<rparr>"

definition post :: "bytes \<Rightarrow> request" where
  "post payload =
     \<lparr>request_path = ''/internal/media/upload'', request_headers = [], request_data = payload\<rparr>"

definition get :: "(string \<times> string) list \<Rightarrow> request" where
  "get hdrs = \<lparr>request_path = ''/system/media/get/42'', request_headers = hdrs, request_data = []\<rparr>"

definition empty_database :: database where
  "empty_database = Map.empty"

text \<open>A store that holds the two bytes \<open>hi\<close> as a PNG image under the id 42.\<close>

definition example_database :: database where
  "example_database = set_mediafile empty_database 42 ''hi'' (JStr ''image/png'')"

section \<open>Properties of chunking\<close>

lemma py_slice_chunk:
  "0 \<le> i \<Longrightarrow> 0 < size' \<Longrightarrow>
   py_slice source i (i + size') = take (nat size') (drop (nat i) source)"
  by (auto simp: py_slice_def slice_index_def Let_def min_def max_def nat_add_distrib)

lemma range_from_step:
  "0 < step \<Longrightarrow> i < stop \<Longrightarrow> range_from i stop step = i # range_from (i + step) stop step"
  by (subst range_from.simps) simp

lemma range_from_done:
  "0 < step \<Longrightarrow> stop \<le> i \<Longrightarrow> range_from i stop step = []"
  by (subst range_from.simps) simp

lemma concat_chunks_from:
  "0 \<le> i \<Longrightarrow> 0 < size' \<Longrightarrow>
   concat (map (\<lambda>k. py_slice source k (k + size')) (range_from i (int (length source)) size'))
     = drop (nat i) source"
proof (induction i "int (length source)" size' rule: range_from.induct)
  case (1 i step)
  show ?case
  proof (cases "i < int (length source)")
    case True
    have "drop (nat (i + step)) source = drop (nat step) (drop (nat i) source)"
      using "1.prems" by (simp add: nat_add_distrib add.commute)
    moreover have "concat (map (\<lambda>k. py_slice source k (k + step))
            (range_from (i + step) (int (length source)) step)) = drop (nat (i + step)) source"
      using "1.hyps" "1.prems" True by simp
    moreover have "take (nat step) (drop (nat i) source) @ drop (nat step) (drop (nat i) source)
        = drop (nat i) source"
      by (rule append_take_drop_id)
    ultimately show ?thesis
      using "1.prems" True by (simp only: range_from_step py_slice_chunk list.map concat.simps)
  next
    case False
    then show ?thesis
      using "1.prems" by (simp add: range_from_done)
  qed
qed

lemma chunk_lengths_from:
  "0 \<le> i \<Longrightarrow> 0 < size' \<Longrightarrow>
   list_all (\<lambda>c. length c \<le> nat size')
     (map (\<lambda>k. py_slice source k (k + size')) (range_from i stop size'))"
proof (induction i stop size' rule: range_from.induct)
  case (1 i stop step)
  show ?case
  proof (cases "i < stop")
    case True
    then show ?thesis
      using "1.IH" "1.prems" by (simp add: range_from_step py_slice_chunk)
  next
    case False
    then show ?thesis
      using "1.prems" by (simp add: range_from_done)
  qed
qed

lemma chunked_positive:
  assumes "0 < size'"
  shows "\<exists>chunks. chunked size' source = Inr chunks
           \<and> list_all (\<lambda>c. length c \<le> nat size') chunks
           \<and> concat chunks = source"
proof -
  let ?chunks = "map (\<lambda>i. py_slice source i (i + size')) (range_from 0 (int (length source)) size')"
  have ret: "chunked size' source = Inr ?chunks"
    using assms by (simp add: chunked_def py_range_def)
  have len: "list_all (\<lambda>c. length c \<le> nat size') ?chunks"
    using chunk_lengths_from [of 0 size' source "int (length source)"] assms by simp
  have cat: "concat ?chunks = source"
    using concat_chunks_from [of 0 size' source] assms by simp
  from ret len cat show ?thesis by blast
qed

section \<open>Base64: decoding inverts encoding\<close>

lemma sextet1: "(x::nat) < 256 \<Longrightarrow> x div 4 < 64"
  by (simp add: less_mult_imp_div_less)

lemma sextet2: "(y::nat) < 256 \<Longrightarrow> x mod 4 * 16 + y div 16 < 64"
proof -
  assume "y < 256"
  then have "y div 16 < 16" by (simp add: less_mult_imp_div_less)
  moreover have "x mod 4 < 4" by simp
  ultimately show ?thesis by linarith
qed

lemma sextet3: "(z::nat) < 256 \<Longrightarrow> y mod 16 * 4 + z div 64 < 64"
proof -
  assume "z < 256"
  then have "z div 64 < 4" by (simp add: less_mult_imp_div_less)
  moreover have "y mod 16 < 16" by simp
  ultimately show ?thesis by linarith
qed

lemma byte1: "(y::nat) < 256 \<Longrightarrow> x div 4 * 4 + (x mod 4 * 16 + y div 16) div 16 = x"
proof -
  assume "y < 256"
  then have "y div 16 < 16" by (simp add: less_mult_imp_div_less)
  then have "(x mod 4 * 16 + y div 16) div 16 = x mod 4" by simp
  then show ?thesis by simp
qed

lemma byte2:
  "(y::nat) < 256 \<Longrightarrow> z < 256 \<Longrightarrow>
   (x mod 4 * 16 + y div 16) mod 16 * 16 + (y mod 16 * 4 + z div 64) div 4 = y"
proof -
  assume "y < 256" "z < 256"
  then have b: "y div 16 < 16" "z div 64 < 4" by (simp_all add: less_mult_imp_div_less)
  then have "(x mod 4 * 16 + y div 16) mod 16 = y div 16"
    and "(y mod 16 * 4 + z div 64) div 4 = y mod 16" by simp_all
  then show ?thesis by simp
qed

lemma byte3: "(z::nat) < 256 \<Longrightarrow> (y mod 16 * 4 + z div 64) mod 4 * 64 + z mod 64 = z"
proof -
  assume "z < 256"
  then have "z div 64 < 4" by (simp add: less_mult_imp_div_less)
  then have "(y mod 16 * 4 + z div 64) mod 4 = z div 64" by simp
  then show ?thesis by simp
qed

lemma b64_table:
  "list_all (\<lambda>v. b64_value (b64_char v) = Some v \<and> b64_char v \<noteq> CHR ''='') [0 ..< 64]"
  by code_simp

lemma b64_value_char: "v < 64 \<Longrightarrow> b64_value (b64_char v) = Some v"
  using b64_table by (simp add: list_all_iff)

lemma b64_char_not_pad: "v < 64 \<Longrightarrow> b64_char v \<noteq> CHR ''=''"
  using b64_table by (simp add: list_all_iff)

lemma a2b_data:
  assumes "v < 64"
  shows "a2b_base64 quad_pos leftchar pads (b64_char v # rest) =
     (if quad_pos = 0 then a2b_base64 1 v 0 rest
      else if quad_pos = 1 then
        map_option ((#) (char_of (leftchar * 4 + v div 16))) (a2b_base64 2 (v mod 16) 0 rest)
      else if quad_pos = 2 then
        map_option ((#) (char_of (leftchar * 16 + v div 4))) (a2b_base64 3 (v mod 4) 0 rest)
      else
        map_option ((#) (char_of (leftchar * 64 + v))) (a2b_base64 0 0 0 rest))"
  using b64_value_char [OF assms] b64_char_not_pad [OF assms] by simp

lemma a2b_pad2: "a2b_base64 2 leftchar 0 (CHR ''='' # CHR ''='' # rest) = Some []"
  by simp

lemma a2b_pad1: "a2b_base64 3 leftchar 0 (CHR ''='' # rest) = Some []"
  by simp

lemma a2b_quad:
  assumes "s1 < 64" "s2 < 64" "s3 < 64" "s4 < 64"
  shows "a2b_base64 0 leftchar pads (b64_char s1 # b64_char s2 # b64_char s3 # b64_char s4 # rest) =
     map_option (\<lambda>r. char_of (s1 * 4 + s2 div 16) # char_of (s2 mod 16 * 16 + s3 div 4)
                        # char_of (s3 mod 4 * 64 + s4) # r) (a2b_base64 0 0 0 rest)"
  using assms by (simp del: a2b_base64.simps add: a2b_data option.map_comp comp_def)

lemma a2b_last2:
  assumes "s1 < 64" "s2 < 64" "s3 < 64"
  shows "a2b_base64 0 leftchar pads [b64_char s1, b64_char s2, b64_char s3, CHR ''='']
       = Some [char_of (s1 * 4 + s2 div 16), char_of (s2 mod 16 * 16 + s3 div 4)]"
  using assms by (simp del: a2b_base64.simps add: a2b_data a2b_pad1)

lemma a2b_last1:
  assumes "s1 < 64" "s2 < 64"
  shows "a2b_base64 0 leftchar pads [b64_char s1, b64_char s2, CHR ''='', CHR ''='']
       = Some [char_of (s1 * 4 + s2 div 16)]"
  using assms by (simp del: a2b_base64.simps add: a2b_data a2b_pad2)

lemma b64decode_b64encode_aux: "a2b_base64 0 leftchar pads (b64encode s) = Some s"
proof (induction s arbitrary: leftchar pads rule: b64encode.induct)
  case 1
  show ?case by simp
next
  case (2 a)
  define x where "x = (of_char a :: nat)"
  have x: "x < 256" by (simp add: x_def)
  have "x mod 4 * 16 < 64" using sextet2 [of 0 x] by simp
  moreover have "x div 4 * 4 + x mod 4 * 16 div 16 = x" by simp
  moreover have "char_of x = a" by (simp add: x_def)
  ultimately show ?case
    using sextet1 [OF x]
    by (simp del: a2b_base64.simps add: Let_def x_def [symmetric] a2b_last1)
next
  case (3 a b)
  define x where "x = (of_char a :: nat)"
  define y where "y = (of_char b :: nat)"
  have x: "x < 256" and y: "y < 256" by (simp_all add: x_def y_def)
  have "y mod 16 * 4 < 64" using sextet3 [of 0 y] by simp
  moreover have "(x mod 4 * 16 + y div 16) mod 16 * 16 + y mod 16 * 4 div 4 = y"
    using byte2 [of y 0 x] y by simp
  moreover have "char_of x = a" "char_of y = b" by (simp_all add: x_def y_def)
  ultimately show ?case
    using sextet1 [OF x] sextet2 [OF y, of x] byte1 [OF y, of x]
    by (simp del: a2b_base64.simps add: Let_def x_def [symmetric] y_def [symmetric] a2b_last2)
next
  case (4 a b c rest)
  define x where "x = (of_char a :: nat)"
  define y where "y = (of_char b :: nat)"
  define z where "z = (of_char c :: nat)"
  have x: "x < 256" and y: "y < 256" and z: "z < 256" by (simp_all add: x_def y_def z_def)
  have s: "x div 4 < 64" "x mod 4 * 16 + y div 16 < 64" "y mod 16 * 4 + z div 64 < 64"
      "z mod 64 < 64"
    using sextet1 [OF x] sextet2 [OF y] sextet3 [OF z] by simp_all
  have c: "char_of x = a" "char_of y = b" "char_of z = c" by (simp_all add: x_def y_def z_def)
  show ?case
    using a2b_quad [OF s, of leftchar pads "b64encode rest"]
      byte1 [OF y, of x] byte2 [OF y z, of x] byte3 [OF z, of y] c "4.IH" [OF refl refl refl, of 0 0]
    by (simp del: a2b_base64.simps add: Let_def x_def [symmetric] y_def [symmetric] z_def [symmetric])
qed

lemma b64decode_b64encode: "b64decode (b64encode s) = Some s"
  by (simp add: b64decode_def b64decode_b64encode_aux)

section \<open>The header filter of \<open>serve\<close>\<close>

lemma str_in_iff: "str_in sub s \<longleftrightarrow> (\<exists>pre suf. s = pre @ sub @ suf)"
proof (induction s)
  case Nil
  show ?case by auto
next
  case (Cons c cs)
  show ?case
  proof
    assume "str_in sub (c # cs)"
    then consider "take (length sub) (c # cs) = sub" | "str_in sub cs" by auto
    then show "\<exists>pre suf. c # cs = pre @ sub @ suf"
    proof cases
      case 1
      then have "c # cs = [] @ sub @ drop (length sub) (c # cs)"
        by (metis append_Nil append_take_drop_id)
      then show ?thesis by blast
    next
      case 2
      then obtain pre suf where "cs = pre @ sub @ suf" using Cons.IH by blast
      then have "c # cs = (c # pre) @ sub @ suf" by simp
      then show ?thesis by blast
    qed
  next
    assume "\<exists>pre suf. c # cs = pre @ sub @ suf"
    then obtain pre suf where eq: "c # cs = pre @ sub @ suf" by blast
    show "str_in sub (c # cs)"
    proof (cases pre)
      case Nil
      then have "take (length sub) (c # cs) = sub" using eq by simp
      then show ?thesis by simp
    next
      case (Cons p pre')
      then have "cs = pre' @ sub @ suf" using eq by simp
      then have "str_in sub cs" using Cons.IH by blast
      then show ?thesis by simp
    qed
  qed
qed

lemma distinct_fold_update:
  "distinct (map fst d) \<Longrightarrow>
   distinct (map fst (fold (\<lambda>(k, v) d. AList.update k v d) items d))"
  by (induction items arbitrary: d) (auto simp: distinct_update)

lemma distinct_py_dict: "distinct (map fst (py_dict items))"
  by (simp add: py_dict_def distinct_fold_update)

lemma map_of_fold_update:
  "map_of (fold (\<lambda>(k, v) d. AList.update k v d) items d) = map_of d ++ map_of (rev items)"
proof (induction items arbitrary: d)
  case Nil
  show ?case by simp
next
  case (Cons kv items)
  obtain k v where kv: "kv = (k, v)" by (cases kv)
  show ?case
    by (simp add: Cons.IH kv update_conv' map_add_upd_left fun_eq_iff map_add_def
          split: option.splits)
qed

lemma map_of_py_dict: "map_of (py_dict items) = map_of (rev items)"
  by (simp add: py_dict_def map_of_fold_update)

lemma del_each_distinct:
  "distinct ks \<Longrightarrow> set ks \<subseteq> fst ` set d \<Longrightarrow>
   del_each ks d = Inr (filter (\<lambda>(k, v). k \<notin> set ks) d)"
proof (induction ks arbitrary: d)
  case Nil
  show ?case by simp
next
  case (Cons key ks)
  have "key \<in> fst ` set d" using Cons.prems by simp
  then obtain v where "map_of d key = Some v"
    by (metis domIff dom_map_of_conv_image_fst not_None_eq)
  then have del: "dict_delitem d key = Inr (AList.delete key d)"
    by (simp add: dict_delitem_def)
  have sub: "set ks \<subseteq> fst ` set (AList.delete key d)"
  proof
    fix k assume k: "k \<in> set ks"
    then have "k \<noteq> key" using Cons.prems by auto
    moreover obtain w where "(k, w) \<in> set d" using k Cons.prems by auto
    ultimately have "(k, w) \<in> set (AList.delete key d)" by (auto simp: AList.delete_eq)
    then show "k \<in> fst ` set (AList.delete key d)" by (force simp: image_iff)
  qed
  have "del_each ks (AList.delete key d)
      = Inr (filter (\<lambda>(k, v). k \<notin> set ks) (AList.delete key d))"
    using Cons.IH [OF _ sub] Cons.prems by simp
  also have "filter (\<lambda>(k, v). k \<notin> set ks) (AList.delete key d)
      = filter (\<lambda>(k, v). k \<notin> set (key # ks)) d"
    by (auto simp: AList.delete_eq intro: filter_cong)
  finally show ?case using del by simp
qed

lemma del_each_filter:
  assumes "distinct (map fst d)"
  shows "del_each (filter P (map fst d)) d = Inr (filter (\<lambda>(k, v). \<not> P k) d)"
proof -
  have "del_each (filter P (map fst d)) d
      = Inr (filter (\<lambda>(k, v). k \<notin> set (filter P (map fst d))) d)"
    using assms by (intro del_each_distinct) auto
  also have "filter (\<lambda>(k, v). k \<notin> set (filter P (map fst d))) d
      = filter (\<lambda>(k, v). \<not> P k) d"
    by (rule filter_cong) (auto simp: image_iff)
  finally show ?thesis .
qed

lemma map_of_filter_key:
  "map_of (filter (\<lambda>(k, v). P k) xs) key = (if P key then map_of xs key else None)"
  by (induction xs) auto

lemma presenter_headers_eq:
  "presenter_headers request =
     Inr (filter (\<lambda>(k, v). \<not> str_in ''content'' k) (py_dict (request_headers request)))"
  by (simp add: presenter_headers_def Let_def del_each_filter distinct_py_dict)

lemma presenter_headers_lookup:
  assumes "presenter_headers request = Inr hdrs"
  shows "map_of hdrs key =
     (if str_in ''content'' key then None else map_of (rev (request_headers request)) key)"
proof -
  have "hdrs = filter (\<lambda>(k, v). \<not> str_in ''content'' k) (py_dict (request_headers request))"
    using assms by (simp add: presenter_headers_eq)
  then have "map_of hdrs key =
      (if str_in ''content'' key then None else map_of (py_dict (request_headers request)) key)"
    by (simp add: map_of_filter_key) 
  then show ?thesis by (simp add: map_of_py_dict)
qed

section \<open>Response headers\<close>

lemma ascii_lower_content_type: "ascii_lower ''Content-Type'' = ''content-type''"
  by code_simp

lemma ascii_lower_content_disposition:
  "ascii_lower ''Content-Disposition'' = ''content-disposition''"
  by code_simp

lemma ascii_lower_authentication: "ascii_lower ''Authentication'' = ''authentication''"
  by code_simp

lemma ascii_lower_lower_case:
  "ascii_lower ''content-type'' = ''content-type''"
  "ascii_lower ''content-disposition'' = ''content-disposition''"
  by code_simp+

lemma get_header_filter:
  "ascii_lower k \<noteq> ascii_lower key \<Longrightarrow>
   get_header (filter (\<lambda>(k', w). ascii_lower k' \<noteq> ascii_lower key) hs) k = get_header hs k"
  by (induction hs) auto

lemma get_header_headers_replace:
  "get_header (headers_replace key v hs) k =
     (if ascii_lower k = ascii_lower key then Some v else get_header hs k)"
  by (induction hs) (auto simp: get_header_filter)

lemma has_newline_append: "has_newline (a @ b) \<longleftrightarrow> has_newline a \<or> has_newline b"
  by (auto simp: has_newline_def)

lemma has_newline_get_content_type: "has_newline (get_content_type m) \<longleftrightarrow> has_newline m"
  by (simp add: get_content_type_def has_newline_def)

lemma has_newline_disposition:
  "has_newline (''inline; filename=\"'' @ filename @ ''\"'') \<longleftrightarrow> has_newline filename"
  by (simp add: has_newline_def)

section \<open>The views and the routes\<close>

lemma dispatch_simps:
  "dispatch env (Inl (HttpError error), database) = (Inr (handle_view_error env error), database)"
  "dispatch env (Inl (Exception c), database) = (Inl (Exception c), database)"
  "dispatch env (Inr response, database) = (Inr response, database)"
  by (simp_all add: dispatch_def)

lemma handle_general_errors_id: "handle_general_errors fn args = fn args"
  by (simp add: handle_general_errors_def split: prod.splits sum.splits)

lemma handle_view_error_eq:
  "handle_view_error env error =
     \<lparr>status_code = error_status_code error,
      response_headers = [(''Content-Type'', ''application/json'')],
      response_body = Json (JDict [(''success'', JBool False),
                                   (''message'', JStr (error_message env error))])\<rparr>"
  by (simp add: handle_view_error_def jsonify_def Let_def)

lemma serve_snd: "snd (serve env request database mediafile_id) = database"
  by (simp add: serve_def Let_def split: sum.splits prod.splits)

lemma upload_cases:
  "upload py request database =
     (case try_json py request of
        None \<Rightarrow> (Inl (HttpError (BadRequestError ''request.data is not json'')), database)
      | Some dejson \<Rightarrow>
         (case try_media dejson of
            None \<Rightarrow> (Inl (HttpError (BadRequestError ''cannot decode base64 file'')), database)
          | Some media \<Rightarrow>
             (case try_id_mimetype py dejson of
                None \<Rightarrow>
                  (Inl (HttpError (BadRequestError
                     (''The post request.data is not in right format: ''
                        @ bytes_repr (request_data request)))),
                   database)
              | Some (media_id, mimetype) \<Rightarrow>
                  (Inr \<lparr>status_code = 200,
                        response_headers = [(''Content-Type'', ''application/json'')],
                        response_body = Json (JDict [(''success'', JBool True)])\<rparr>,
                   database(media_id \<mapsto> (media, mimetype))))))"
  by (simp add: upload_def jsonify_def set_mediafile_def split: option.splits)

lemma upload_store_idem:
  "snd (upload py request (snd (upload py request database))) = snd (upload py request database)"
  by (simp add: upload_cases split: option.splits prod.splits)

lemma serve_granted:
  assumes "presenter_headers request = Inr hdrs"
    and "check_mediafile_id env mediafile_id hdrs = Inr (True, filename, auth_header)"
    and "database mediafile_id = Some (data, mimetype)"
  shows "serve env request database mediafile_id =
     (case content_type_for mimetype of
        Inl e \<Rightarrow> (Inl e, database)
      | Inr content_type \<Rightarrow>
          if has_newline content_type \<or> has_newline filename
               \<or> (truthy auth_header \<and> has_newline (the auth_header))
          then (Inl (Exception ''ValueError''), database)
          else
            (Inr \<lparr>status_code = 200,
                  response_headers =
                    (let hs = [(''Content-Type'', content_type),
                               (''Content-Disposition'', ''inline; filename=\"'' @ filename @ ''\"'')]
                     in if truthy auth_header
                        then headers_replace (AUTH_HEADER env) (the auth_header) hs else hs),
                  response_body = Chunks (chunked (BLOCK_SIZE env) data)\<rparr>,
             database))"
  using assms
  by (simp add: serve_def get_mediafile_def Response_def set_header_def Let_def
        ascii_lower_content_type ascii_lower_content_disposition has_newline_def
      split: sum.splits)


section \<open>Upload\<close>

lemma getitem_JDict: "getitem (JDict d) key = map_of d key"
  by (simp add: getitem_def)

lemma try_media_file:
  "getitem dejson ''file'' = Some (JStr s) \<Longrightarrow> try_media dejson = b64decode s"
  by (simp add: try_media_def encode_def)

lemma try_id_mimetype_Some:
  "getitem dejson ''id'' = Some v \<Longrightarrow> py_int py v = Some media_id \<Longrightarrow>
   getitem dejson ''mimetype'' = Some mimetype \<Longrightarrow>
   try_id_mimetype py dejson = Some (media_id, mimetype)"
  by (simp add: try_id_mimetype_def)







section \<open>The examples, evaluated\<close>

lemma b64encode_hi: "b64encode ''hi'' = ''aGk=''"
  by code_simp

lemma b64decode_hi: "b64decode ''aGk='' = Some ''hi''"
  using b64decode_b64encode [of "''hi''"] by (simp only: b64encode_hi)

lemma b64decode_bad_padding: "b64decode ''aGk'' = None"
  by code_simp

lemma b64encode_hello: "b64encode ''hello world'' = ''aGVsbG8gd29ybGQ=''"
  by code_simp

lemma b64decode_hello: "b64decode ''aGVsbG8gd29ybGQ='' = Some ''hello world''"
  using b64decode_b64encode [of "''hello world''"] by (simp only: b64encode_hello)


lemma get_content_type_examples:
  "get_content_type ''image/png'' = ''image/png''"
  "get_content_type ''text/plain'' = ''text/plain; charset=utf-8''"
  "get_content_type ''image/svg+xml'' = ''image/svg+xml; charset=utf-8''"
  by (simp_all add: get_content_type_def charset_mimetypes_def)

lemma presenter_headers_empty: "presenter_headers (get []) = Inr []"
  by (simp add: presenter_headers_eq py_dict_def get_def)


lemma example_env_simps:
  "BLOCK_SIZE example_env = 4"
  "AUTH_HEADER example_env = ''Authentication''"
  "not_found_message example_env = ''Not found''"
  "check_mediafile_id example_env mediafile_id hdrs = Inr (mediafile_id = 42, ''logo.png'', Some ''token'')"
  by (simp_all add: example_env_def)

lemma example_env_empty_credential_simps:
  "BLOCK_SIZE example_env_empty_credential = 4"
  "AUTH_HEADER example_env_empty_credential = ''Authentication''"
  "check_mediafile_id example_env_empty_credential mediafile_id hdrs = Inr (True, ''logo.png'', Some [])"
  by (simp_all add: example_env_empty_credential_def example_env_def answering_def)

lemma example_database_simps:
  "empty_database mediafile_id = None"
  "example_database 42 = Some (''hi'', JStr ''image/png'')"
  "example_database = empty_database(42 \<mapsto> (''hi'', JStr ''image/png''))"
  by (simp_all add: example_database_def empty_database_def set_mediafile_def)

lemma chunked_hi: "chunked 4 ''hi'' = Inr [''hi'']"
  by (simp add: chunked_def py_range_def range_from.simps py_slice_def slice_index_def)

lemma chunked_hello: "chunked 4 ''hello world'' = Inr [''hell'', ''o wo'', ''rld'']"
  by (simp add: chunked_def py_range_def range_from.simps py_slice_def slice_index_def)

lemma chunked_nonpositive:
  "chunked 0 ''hi'' = Inl (Exception ''ValueError'')"
  "chunked (- 1) ''hi'' = Inr []"
  by (simp_all add: chunked_def py_range_def range_from.simps)

lemma example_try_json:
  "try_json example_python (post ''{\"id\": 42, \"mimetype\": \"image/png\", \"file\": \"aGk=\"}'')
     = Some (JDict [(''id'', JInt 42), (''mimetype'', JStr ''image/png''), (''file'', JStr ''aGk='')])"
  "try_json example_python (post ''{\"id\": -5, \"mimetype\": \"image/png\", \"file\": \"aGk=\"}'')
     = Some (JDict [(''id'', JInt (- 5)), (''mimetype'', JStr ''image/png''), (''file'', JStr ''aGk='')])"
  "try_json example_python (post ''{\"id\": \"-5\", \"mimetype\": \"image/png\", \"file\": \"aGk=\"}'')
     = Some (JDict [(''id'', JStr ''-5''), (''mimetype'', JStr ''image/png''), (''file'', JStr ''aGk='')])"
  "try_json example_python (post ''{\"id\": 3.75, \"mimetype\": \"image/png\", \"file\": \"aGk=\"}'')
     = Some (JDict [(''id'', JFloat (Finite 3.75)), (''mimetype'', JStr ''image/png''),
                    (''file'', JStr ''aGk='')])"
  "try_json example_python (post ''{\"id\": 42, \"mimetype\": \"image/png\", \"file\": \"aGk\"}'')
     = Some (JDict [(''id'', JInt 42), (''mimetype'', JStr ''image/png''), (''file'', JStr ''aGk'')])"
  "try_json example_python (post ''{\"mimetype\": \"image/png\", \"file\": \"aGk=\"}'')
     = Some (JDict [(''mimetype'', JStr ''image/png''), (''file'', JStr ''aGk='')])"
  "try_json example_python (post ''{}'') = Some (JDict [])"
  "try_json example_python (post ''not json'') = None"
  "try_json example_python
     (post ''{\"id\": 42, \"mimetype\": \"text/plain\", \"file\": \"aGVsbG8gd29ybGQ=\"}'')
     = Some (JDict [(''id'', JInt 42), (''mimetype'', JStr ''text/plain''),
                    (''file'', JStr ''aGVsbG8gd29ybGQ='')])"
  "try_json example_python (post ''{\"id\": 42, \"mimetype\": \"image/png\", \"file\": \"!!!!\"}'')
     = Some (JDict [(''id'', JInt 42), (''mimetype'', JStr ''image/png''), (''file'', JStr ''!!!!'')])"
  "try_json example_python (post newline_mimetype_body)
     = Some (JDict [(''id'', JInt 42),
                    (''mimetype'', JStr (''image/png'' @ [CHR 0x0A] @ ''text/html'')),
                    (''file'', JStr ''aGk='')])"
  by (simp_all add: try_json_def example_python_def post_def newline_mimetype_body_def)

section \<open>The claims\<close>

text \<open>
  C1. The claim: every header whose name contains \<open>content\<close> in any letter case is
  absent from the headers passed to the delegate. The test in \<open>serve\<close> is
  \<open>"content" in key\<close>, which compares letters exactly: the header \<open>Content-Type\<close>, whose
  name contains \<open>content\<close> when letter case is ignored, is not a key the test selects,
  and it reaches \<open>check_mediafile_id\<close> with the other headers.
\<close>

theorem capitalised_content_header_forwarded:
  "str_in ''content'' (ascii_lower ''Content-Type'')
   \<and> presenter_headers (get [(''Content-Type'', ''application/json''), (''Host'', ''media'')])
       = Inr [(''Content-Type'', ''application/json''), (''Host'', ''media'')]"
  by code_simp

text \<open>
  C2. For every byte sequence and every positive chunk size, \<open>chunked\<close> returns a
  (finite) list of chunks, each of at most the chunk size, and the concatenation of the
  chunks in the order they are emitted is the byte sequence itself.
\<close>

theorem chunked_lossless:
  assumes "0 < size'"
  shows "\<exists>chunks. chunked size' source = Inr chunks
           \<and> (\<forall>c \<in> set chunks. length c \<le> nat size')
           \<and> concat chunks = source"
  using chunked_positive [OF assms, of source] by (auto simp: list_all_iff)

theorem chunked_lossless_witness:
  "chunked 2 ''abcde'' = Inr [''ab'', ''cd'', ''e'']
   \<and> (\<exists>chunks. chunked 2 ''abcde'' = Inr chunks
          \<and> (\<forall>c \<in> set chunks. length c \<le> nat 2) \<and> concat chunks = ''abcde'')"
proof
  show "chunked 2 ''abcde'' = Inr [''ab'', ''cd'', ''e'']"
    by (simp add: chunked_def py_range_def range_from.simps py_slice_def slice_index_def)
  show "\<exists>chunks. chunked 2 ''abcde'' = Inr chunks
          \<and> (\<forall>c \<in> set chunks. length c \<le> nat 2) \<and> concat chunks = ''abcde''"
    using chunked_lossless [of 2 "''abcde''"] by simp
qed

text \<open>
  C3. When the delegate reports not-allowed, \<open>serve\<close> raises \<open>NotFoundError\<close>, and the
  route renders it as the 404 error envelope; when the store holds no blob for the
  identifier, the same holds. The two cases need not occur together: each is stated for
  itself, for every delegate. The envelope of both is the same response, which names
  neither the identifier nor the reason.
\<close>

theorem retrieval_not_found:
  assumes "presenter_headers request = Inr hdrs"
    and "check_mediafile_id env mediafile_id hdrs = Inr (ok, filename, auth_header)"
  shows "(\<not> ok \<longrightarrow>
        serve env request database mediafile_id = (Inl (HttpError NotFoundError), database)
        \<and> fst (route_get env request database mediafile_id) =
            Inr \<lparr>status_code = 404,
                 response_headers = [(''Content-Type'', ''application/json'')],
                 response_body = Json (JDict [(''success'', JBool False),
                                              (''message'', JStr (not_found_message env))])\<rparr>)
     \<and> (database mediafile_id = None \<longrightarrow>
        serve env request database mediafile_id = (Inl (HttpError NotFoundError), database)
        \<and> fst (route_get env request database mediafile_id) =
            Inr \<lparr>status_code = 404,
                 response_headers = [(''Content-Type'', ''application/json'')],
                 response_body = Json (JDict [(''success'', JBool False),
                                              (''message'', JStr (not_found_message env))])\<rparr>)"
proof -
  have denied: "serve env request database mediafile_id = (Inl (HttpError NotFoundError), database)"
    if "\<not> ok"
    using assms that by (simp add: serve_def)
  have absent: "serve env request database mediafile_id = (Inl (HttpError NotFoundError), database)"
    if "database mediafile_id = None"
    using assms that by (simp add: serve_def get_mediafile_def)
  have not_found: "handle_view_error env NotFoundError =
      \<lparr>status_code = 404, response_headers = [(''Content-Type'', ''application/json'')],
       response_body = Json (JDict [(''success'', JBool False),
                                    (''message'', JStr (not_found_message env))])\<rparr>"
    by (simp add: handle_view_error_eq error_status_code_def error_message_def)
  have rendered: "fst (route_get env request database mediafile_id) =
      Inr (handle_view_error env NotFoundError)"
    if "serve env request database mediafile_id = (Inl (HttpError NotFoundError), database)"
    using that by (simp add: route_get_def handle_general_errors_id dispatch_simps)
  show ?thesis
    using denied absent rendered by (simp add: not_found)
qed

theorem retrieval_not_found_witness:
  "serve example_env (get []) example_database 7 = (Inl (HttpError NotFoundError), example_database)
   \<and> fst (route_get example_env (get []) example_database 7) =
        Inr \<lparr>status_code = 404, response_headers = [(''Content-Type'', ''application/json'')],
             response_body = Json (JDict [(''success'', JBool False),
                                          (''message'', JStr ''Not found'')])\<rparr>
   \<and> serve example_env (get []) empty_database 42 = (Inl (HttpError NotFoundError), empty_database)
   \<and> fst (route_get example_env (get []) empty_database 42) =
        Inr \<lparr>status_code = 404, response_headers = [(''Content-Type'', ''application/json'')],
             response_body = Json (JDict [(''success'', JBool False),
                                          (''message'', JStr ''Not found'')])\<rparr>
   \<and> serve example_env_empty_credential (get []) empty_database 42 =
        (Inl (HttpError NotFoundError), empty_database)"
proof -
  have denied: "check_mediafile_id example_env 7 [] = Inr (False, ''logo.png'', Some ''token'')"
    and granted: "check_mediafile_id example_env 42 [] = Inr (True, ''logo.png'', Some ''token'')"
    and grant_all: "check_mediafile_id example_env_empty_credential 42 [] =
      Inr (True, ''logo.png'', Some [])"
    by (simp_all add: example_env_simps example_env_empty_credential_simps)
  show ?thesis
    using retrieval_not_found [OF presenter_headers_empty denied, of example_database]
      retrieval_not_found [OF presenter_headers_empty granted, of empty_database]
      retrieval_not_found [OF presenter_headers_empty grant_all, of empty_database]
    by (simp add: example_env_simps example_database_simps)
qed




text \<open>
  C5, as amended. Upload, then retrieval. A request body that parses to an object with an
  integer \<open>id\<close>, a string \<open>mimetype\<close> and \<open>file\<close> the base64 encoding of the bytes \<open>B\<close> is
  uploaded with success. A retrieval of that id from the resulting store, granted by the
  delegate, answers 200 with chunks whose concatenation is \<open>B\<close> and with the
  \<open>Content-Type\<close> that the framework derives from the uploaded mimetype (the mimetype,
  followed by \<open>; charset=utf-8\<close> when it starts with \<open>text/\<close>, ends with \<open>+xml\<close> or is one of
  \<open>charset_mimetypes\<close>), provided that the configured block size is positive, that the
  mimetype, the delegate's display name and its credential hold no carriage return and
  no line feed, and that the credential-forwarding header is not \<open>Content-Type\<close> itself.
\<close>

theorem upload_retrieve_roundtrip:
  assumes "try_json py upload_request = Some (JDict payload)"
    and "map_of payload ''id'' = Some (JInt media_id)"
    and "map_of payload ''mimetype'' = Some (JStr mimetype)"
    and "map_of payload ''file'' = Some (JStr (b64encode B))"
    and "presenter_headers request = Inr hdrs"
    and "check_mediafile_id env media_id hdrs = Inr (True, filename, auth_header)"
    and "0 < BLOCK_SIZE env"
    and "\<not> has_newline mimetype"
    and "\<not> has_newline filename"
    and "truthy auth_header \<longrightarrow> \<not> has_newline (the auth_header)"
    and "ascii_lower (AUTH_HEADER env) \<noteq> ''content-type''"
  shows "\<exists>ok database' response chunks.
      upload py upload_request database = (Inr ok, database')
      \<and> status_code ok = 200
      \<and> serve env request database' media_id = (Inr response, database')
      \<and> status_code response = 200
      \<and> response_body response = Chunks (Inr chunks)
      \<and> concat chunks = B
      \<and> get_header (response_headers response) ''Content-Type''
           = Some (get_content_type mimetype)"
proof -
  let ?database' = "database(media_id \<mapsto> (B, JStr mimetype))"
  let ?disposition = "''inline; filename=\"'' @ filename @ ''\"''"
  let ?hs = "[(''Content-Type'', get_content_type mimetype), (''Content-Disposition'', ?disposition)]"
  let ?headers = "if truthy auth_header
                  then headers_replace (AUTH_HEADER env) (the auth_header) ?hs else ?hs"
  have media: "try_media (JDict payload) = Some B"
    using assms(4) by (simp add: try_media_file getitem_JDict b64decode_b64encode)
  have "py_int py (JInt media_id) = Some media_id" by (simp add: py_int_def)
  then have up: "upload py upload_request database =
      (Inr \<lparr>status_code = 200, response_headers = [(''Content-Type'', ''application/json'')],
            response_body = Json (JDict [(''success'', JBool True)])\<rparr>, ?database')"
    using assms(1,2,3) media
    by (simp add: upload_cases try_id_mimetype_Some getitem_JDict)
  obtain chunks where chunks: "chunked (BLOCK_SIZE env) B = Inr chunks" "concat chunks = B"
    using chunked_positive [OF assms(7), of B] by blast
  have blob: "?database' media_id = Some (B, JStr mimetype)" by simp
  have down: "serve env request ?database' media_id =
      (Inr \<lparr>status_code = 200, response_headers = ?headers,
            response_body = Chunks (Inr chunks)\<rparr>, ?database')"
    using assms(8,9,10) chunks(1)
    by (simp add: serve_granted [where database = "?database'", OF assms(5,6) blob] content_type_for_def
          has_newline_get_content_type Let_def)
  have content_type: "get_header ?headers ''Content-Type'' = Some (get_content_type mimetype)"
    using assms(11)
    by (simp add: get_header_headers_replace ascii_lower_content_type)
  show ?thesis
    using up down chunks(2) content_type by simp
qed

theorem upload_retrieve_roundtrip_witness:
  "b64encode ''hello world'' = ''aGVsbG8gd29ybGQ=''
   \<and> upload example_python
        (post ''{\"id\": 42, \"mimetype\": \"text/plain\", \"file\": \"aGVsbG8gd29ybGQ=\"}'')
        empty_database =
        (Inr \<lparr>status_code = 200, response_headers = [(''Content-Type'', ''application/json'')],
              response_body = Json (JDict [(''success'', JBool True)])\<rparr>,
         empty_database(42 \<mapsto> (''hello world'', JStr ''text/plain'')))
   \<and> serve example_env (get []) (empty_database(42 \<mapsto> (''hello world'', JStr ''text/plain''))) 42 =
        (Inr \<lparr>status_code = 200,
              response_headers = [(''Content-Type'', ''text/plain; charset=utf-8''),
                                  (''Content-Disposition'', ''inline; filename=\"logo.png\"''),
                                  (''Authentication'', ''token'')],
              response_body = Chunks (Inr [''hell'', ''o wo'', ''rld''])\<rparr>,
         empty_database(42 \<mapsto> (''hello world'', JStr ''text/plain'')))
   \<and> (\<exists>ok database' response chunks.
        upload example_python
          (post ''{\"id\": 42, \"mimetype\": \"text/plain\", \"file\": \"aGVsbG8gd29ybGQ=\"}'')
          empty_database = (Inr ok, database')
        \<and> status_code ok = 200
        \<and> serve example_env (get []) database' 42 = (Inr response, database')
        \<and> status_code response = 200
        \<and> response_body response = Chunks (Inr chunks)
        \<and> concat chunks = ''hello world''
        \<and> get_header (response_headers response) ''Content-Type''
             = Some (get_content_type ''text/plain''))"
proof (intro conjI)
  let ?body = "''{\"id\": 42, \"mimetype\": \"text/plain\", \"file\": \"aGVsbG8gd29ybGQ=\"}''"
  let ?stored = "empty_database(42 \<mapsto> (''hello world'', JStr ''text/plain''))"
  show "b64encode ''hello world'' = ''aGVsbG8gd29ybGQ=''" by (rule b64encode_hello)
  show "upload example_python (post ?body) empty_database =
        (Inr \<lparr>status_code = 200, response_headers = [(''Content-Type'', ''application/json'')],
              response_body = Json (JDict [(''success'', JBool True)])\<rparr>, ?stored)"
    by (simp add: upload_cases example_try_json try_media_file getitem_JDict b64decode_hello
          try_id_mimetype_def py_int_def)
  have granted: "check_mediafile_id example_env 42 [] = Inr (True, ''logo.png'', Some ''token'')"
    by (simp add: example_env_simps)
  have blob: "?stored 42 = Some (''hello world'', JStr ''text/plain'')" by simp
  show "serve example_env (get []) ?stored 42 =
        (Inr \<lparr>status_code = 200,
              response_headers = [(''Content-Type'', ''text/plain; charset=utf-8''),
                                  (''Content-Disposition'', ''inline; filename=\"logo.png\"''),
                                  (''Authentication'', ''token'')],
              response_body = Chunks (Inr [''hell'', ''o wo'', ''rld''])\<rparr>, ?stored)"
    by (simp add: serve_granted [where database = "?stored", OF presenter_headers_empty granted blob] content_type_for_def
          get_content_type_examples has_newline_def truthy_def example_env_simps chunked_hello
          ascii_lower_content_type ascii_lower_content_disposition ascii_lower_authentication)
  let ?payload = "[(''id'', JInt 42), (''mimetype'', JStr ''text/plain''),
                   (''file'', JStr ''aGVsbG8gd29ybGQ='')]"
  have id_item: "map_of ?payload ''id'' = Some (JInt 42)"
    and mimetype_item: "map_of ?payload ''mimetype'' = Some (JStr ''text/plain'')"
    by simp_all
  have "map_of ?payload ''file'' = Some (JStr ''aGVsbG8gd29ybGQ='')" by simp
  then have file_item: "map_of ?payload ''file'' = Some (JStr (b64encode ''hello world''))"
    by (simp only: b64encode_hello)
  have block_size: "0 < BLOCK_SIZE example_env"
    and mimetype: "\<not> has_newline ''text/plain''"
    and filename: "\<not> has_newline ''logo.png''"
    and credential: "truthy (Some ''token'') \<longrightarrow> \<not> has_newline (the (Some ''token''))"
    and auth_header: "ascii_lower (AUTH_HEADER example_env) \<noteq> ''content-type''"
    by (simp_all add: example_env_simps has_newline_def ascii_lower_authentication)
  show "\<exists>ok database' response chunks.
        upload example_python (post ?body) empty_database = (Inr ok, database')
        \<and> status_code ok = 200
        \<and> serve example_env (get []) database' 42 = (Inr response, database')
        \<and> status_code response = 200
        \<and> response_body response = Chunks (Inr chunks)
        \<and> concat chunks = ''hello world''
        \<and> get_header (response_headers response) ''Content-Type''
             = Some (get_content_type ''text/plain'')"
    by (rule upload_retrieve_roundtrip
          [OF example_try_json(9) id_item mimetype_item file_item presenter_headers_empty granted
             block_size mimetype filename credential auth_header])
qed

text \<open>
  The claim as stated fails, in the ways the amendment excludes or describes. The store
  is the one the upload of \<open>{"id": 42, "mimetype": "image/png", "file": "aGk="}\<close> leaves,
  the bytes \<open>hi\<close> under 42, and each retrieval is granted by the delegate.
  \<^item> An uploaded \<open>text/plain\<close> is answered with the content type
    \<open>text/plain; charset=utf-8\<close>, which is not the uploaded mimetype.
  \<^item> A mimetype with a line feed is accepted by the upload, and the retrieval raises
    \<open>ValueError\<close>.
  \<^item> A display name or a credential with a line feed makes the retrieval raise
    \<open>ValueError\<close>.
  \<^item> With the block size 0 the body raises \<open>ValueError\<close>; with the block size -1 the
    body is empty.
  \<^item> With \<open>Content-Type\<close> (in any letter case) as the credential-forwarding header, the
    content type of the response is the credential.
\<close>

theorem upload_retrieve_counterexample:
  "snd (upload example_python
      (post ''{\"id\": 42, \"mimetype\": \"text/plain\", \"file\": \"aGVsbG8gd29ybGQ=\"}'')
      empty_database) = empty_database(42 \<mapsto> (''hello world'', JStr ''text/plain''))
   \<and> fst (serve example_env (get [])
         (empty_database(42 \<mapsto> (''hello world'', JStr ''text/plain''))) 42) =
        Inr \<lparr>status_code = 200,
             response_headers = [(''Content-Type'', ''text/plain; charset=utf-8''),
                                 (''Content-Disposition'', ''inline; filename=\"logo.png\"''),
                                 (''Authentication'', ''token'')],
             response_body = Chunks (Inr [''hell'', ''o wo'', ''rld''])\<rparr>
   \<and> ''text/plain; charset=utf-8'' \<noteq> ''text/plain''
   \<and> snd (upload example_python (post newline_mimetype_body) empty_database) =
        empty_database(42 \<mapsto> (''hi'', JStr (''image/png'' @ [CHR 0x0A] @ ''text/html'')))
   \<and> fst (serve example_env (get [])
         (empty_database(42 \<mapsto> (''hi'', JStr (''image/png'' @ [CHR 0x0A] @ ''text/html'')))) 42) =
        Inl (Exception ''ValueError'')
   \<and> snd (upload example_python
        (post ''{\"id\": 42, \"mimetype\": \"image/png\", \"file\": \"aGk=\"}'') empty_database)
       = example_database
   \<and> fst (serve (example_env\<lparr>check_mediafile_id :=
                    answering (True, ''a'' @ [CHR 0x0A] @ ''b'', None)\<rparr>)
         (get []) example_database 42) = Inl (Exception ''ValueError'')
   \<and> fst (serve (example_env\<lparr>check_mediafile_id :=
                    answering (True, ''logo.png'', Some (''a'' @ [CHR 0x0D] @ ''b''))\<rparr>)
         (get []) example_database 42) = Inl (Exception ''ValueError'')
   \<and> fst (serve (example_env\<lparr>BLOCK_SIZE := 0\<rparr>) (get []) example_database 42) =
        Inr \<lparr>status_code = 200,
             response_headers = [(''Content-Type'', ''image/png''),
                                 (''Content-Disposition'', ''inline; filename=\"logo.png\"''),
                                 (''Authentication'', ''token'')],
             response_body = Chunks (Inl (Exception ''ValueError''))\<rparr>
   \<and> fst (serve (example_env\<lparr>BLOCK_SIZE := - 1\<rparr>) (get []) example_database 42) =
        Inr \<lparr>status_code = 200,
             response_headers = [(''Content-Type'', ''image/png''),
                                 (''Content-Disposition'', ''inline; filename=\"logo.png\"''),
                                 (''Authentication'', ''token'')],
             response_body = Chunks (Inr [])\<rparr>
   \<and> fst (serve (example_env\<lparr>AUTH_HEADER := ''content-type''\<rparr>) (get []) example_database 42) =
        Inr \<lparr>status_code = 200,
             response_headers = [(''content-type'', ''token''),
                                 (''Content-Disposition'', ''inline; filename=\"logo.png\"'')],
             response_body = Chunks (Inr [''hi''])\<rparr>"
proof (intro conjI)
  let ?text = "empty_database(42 \<mapsto> (''hello world'', JStr ''text/plain''))"
  let ?newline = "empty_database(42 \<mapsto> (''hi'', JStr (''image/png'' @ [CHR 0x0A] @ ''text/html'')))"
  note evaluated = content_type_for_def get_content_type_examples has_newline_def truthy_def
    chunked_hi chunked_hello chunked_nonpositive
    ascii_lower_content_type ascii_lower_content_disposition ascii_lower_authentication
    ascii_lower_lower_case
  have granted: "check_mediafile_id example_env 42 [] = Inr (True, ''logo.png'', Some ''token'')"
    by (simp add: example_env_simps)
  have text_blob: "?text 42 = Some (''hello world'', JStr ''text/plain'')" by simp
  have newline_blob: "?newline 42 = Some (''hi'', JStr (''image/png'' @ [CHR 0x0A] @ ''text/html''))"
    by simp
  show "snd (upload example_python
      (post ''{\"id\": 42, \"mimetype\": \"text/plain\", \"file\": \"aGVsbG8gd29ybGQ=\"}'')
      empty_database) = ?text"
    by (simp add: upload_cases example_try_json try_media_file getitem_JDict b64decode_hello
          try_id_mimetype_def py_int_def)
  show "fst (serve example_env (get []) ?text 42) =
        Inr \<lparr>status_code = 200,
             response_headers = [(''Content-Type'', ''text/plain; charset=utf-8''),
                                 (''Content-Disposition'', ''inline; filename=\"logo.png\"''),
                                 (''Authentication'', ''token'')],
             response_body = Chunks (Inr [''hell'', ''o wo'', ''rld''])\<rparr>"
    by (simp add: serve_granted [where database = "?text", OF presenter_headers_empty granted text_blob] evaluated
          example_env_simps)
  show "''text/plain; charset=utf-8'' \<noteq> ''text/plain''" by simp
  show "snd (upload example_python (post newline_mimetype_body) empty_database) = ?newline"
    by (simp add: upload_cases example_try_json try_media_file getitem_JDict b64decode_hi
          try_id_mimetype_def py_int_def)
  from serve_granted [where database = "?newline", OF presenter_headers_empty granted newline_blob]
  show "fst (serve example_env (get []) ?newline 42) = Inl (Exception ''ValueError'')"
    by (simp add: content_type_for_def get_content_type_def charset_mimetypes_def has_newline_def)
  show "snd (upload example_python
        (post ''{\"id\": 42, \"mimetype\": \"image/png\", \"file\": \"aGk=\"}'') empty_database)
       = example_database"
    by (simp add: upload_cases example_try_json try_media_file getitem_JDict b64decode_hi
          try_id_mimetype_def py_int_def example_database_simps)
  let ?name = "example_env\<lparr>check_mediafile_id := answering (True, ''a'' @ [CHR 0x0A] @ ''b'', None)\<rparr>"
  have "check_mediafile_id ?name 42 [] = Inr (True, ''a'' @ [CHR 0x0A] @ ''b'', None)"
    by (simp add: answering_def)
  from serve_granted [where database = example_database, OF presenter_headers_empty this example_database_simps(2)]
  show "fst (serve ?name (get []) example_database 42) = Inl (Exception ''ValueError'')"
    by (simp add: evaluated)
  let ?credential = "example_env\<lparr>check_mediafile_id :=
      answering (True, ''logo.png'', Some (''a'' @ [CHR 0x0D] @ ''b''))\<rparr>"
  have "check_mediafile_id ?credential 42 [] =
      Inr (True, ''logo.png'', Some (''a'' @ [CHR 0x0D] @ ''b''))"
    by (simp add: answering_def)
  from serve_granted [where database = example_database, OF presenter_headers_empty this example_database_simps(2)]
  show "fst (serve ?credential (get []) example_database 42) = Inl (Exception ''ValueError'')"
    by (simp add: evaluated)
  have "check_mediafile_id (example_env\<lparr>BLOCK_SIZE := 0\<rparr>) 42 [] =
      Inr (True, ''logo.png'', Some ''token'')"
    by (simp add: example_env_simps)
  from serve_granted [where database = example_database, OF presenter_headers_empty this example_database_simps(2)]
  show "fst (serve (example_env\<lparr>BLOCK_SIZE := 0\<rparr>) (get []) example_database 42) =
        Inr \<lparr>status_code = 200,
             response_headers = [(''Content-Type'', ''image/png''),
                                 (''Content-Disposition'', ''inline; filename=\"logo.png\"''),
                                 (''Authentication'', ''token'')],
             response_body = Chunks (Inl (Exception ''ValueError''))\<rparr>"
    by (simp add: evaluated example_env_simps)
  have "check_mediafile_id (example_env\<lparr>BLOCK_SIZE := - 1\<rparr>) 42 [] =
      Inr (True, ''logo.png'', Some ''token'')"
    by (simp add: example_env_simps)
  from serve_granted [where database = example_database, OF presenter_headers_empty this example_database_simps(2)]
  show "fst (serve (example_env\<lparr>BLOCK_SIZE := - 1\<rparr>) (get []) example_database 42) =
        Inr \<lparr>status_code = 200,
             response_headers = [(''Content-Type'', ''image/png''),
                                 (''Content-Disposition'', ''inline; filename=\"logo.png\"''),
                                 (''Authentication'', ''token'')],
             response_body = Chunks (Inr [])\<rparr>"
    by (simp add: evaluated example_env_simps)
  have "check_mediafile_id (example_env\<lparr>AUTH_HEADER := ''content-type''\<rparr>) 42 [] =
      Inr (True, ''logo.png'', Some ''token'')"
    by (simp add: example_env_simps)
  from serve_granted [where database = example_database, OF presenter_headers_empty this example_database_simps(2)]
  show "fst (serve (example_env\<lparr>AUTH_HEADER := ''content-type''\<rparr>) (get []) example_database 42) =
        Inr \<lparr>status_code = 200,
             response_headers = [(''content-type'', ''token''),
                                 (''Content-Disposition'', ''inline; filename=\"logo.png\"'')],
             response_body = Chunks (Inr [''hi''])\<rparr>"
    by (simp add: evaluated example_env_simps)
qed

text \<open>
  C6. The store after \<open>n \<ge> 1\<close> identical uploads is the store after one such upload,
  for every request (accepted or refused), and \<open>set_mediafile\<close> overwrites: whatever the
  store held for the id, \<open>get_mediafile\<close> then returns the blob and mimetype just put.
\<close>

theorem upload_idempotent:
  assumes "1 \<le> n"
  shows "((\<lambda>db. snd (upload py request db)) ^^ n) database = snd (upload py request database)
     \<and> get_mediafile (set_mediafile database media_id media mimetype) media_id
         = Inr (media, mimetype)"
proof -
  have "((\<lambda>db. snd (upload py request db)) ^^ Suc m) database = snd (upload py request database)"
    for m
    by (induction m) (simp_all add: upload_store_idem)
  moreover obtain m where "n = Suc m" using assms by (cases n) auto
  ultimately show ?thesis by (simp add: get_mediafile_def set_mediafile_def)
qed

theorem upload_idempotent_witness:
  "((\<lambda>db. snd (upload example_python
        (post ''{\"id\": 42, \"mimetype\": \"image/png\", \"file\": \"aGk=\"}'') db)) ^^ 3)
      empty_database = example_database
   \<and> get_mediafile (set_mediafile example_database 42 ''new'' (JStr ''text/plain'')) 42
       = Inr (''new'', JStr ''text/plain'')"
proof
  have "snd (upload example_python
        (post ''{\"id\": 42, \"mimetype\": \"image/png\", \"file\": \"aGk=\"}'') empty_database)
       = example_database"
    by (simp add: upload_cases example_try_json try_media_file getitem_JDict b64decode_hi
          try_id_mimetype_def py_int_def example_database_simps)
  then show "((\<lambda>db. snd (upload example_python
        (post ''{\"id\": 42, \"mimetype\": \"image/png\", \"file\": \"aGk=\"}'') db)) ^^ 3)
      empty_database = example_database"
    using upload_idempotent [where n = 3 and py = example_python
        and request = "post ''{\"id\": 42, \"mimetype\": \"image/png\", \"file\": \"aGk=\"}''"
        and database = empty_database]
    by (simp only: one_le_numeral simp_thms)
  show "get_mediafile (set_mediafile example_database 42 ''new'' (JStr ''text/plain'')) 42
       = Inr (''new'', JStr ''text/plain'')"
    using upload_idempotent [where n = 1 and database = example_database and media_id = 42
        and media = "''new''" and mimetype = "JStr ''text/plain''"]
    by simp
qed




text \<open>
  C8. An \<open>HttpError\<close> raised by \<open>serve\<close> or by \<open>upload\<close> reaches the caller as the JSON
  envelope \<open>{"success": false, "message": <the error's message>}\<close> with the error's
  status code: 404 for \<open>NotFoundError\<close>, 400 for \<open>BadRequestError\<close>.
\<close>

theorem typed_failure_envelope:
  "(serve env request database mediafile_id = (Inl (HttpError error), database') \<longrightarrow>
      route_get env request database mediafile_id =
        (Inr \<lparr>status_code = error_status_code error,
              response_headers = [(''Content-Type'', ''application/json'')],
              response_body = Json (JDict [(''success'', JBool False),
                                           (''message'', JStr (error_message env error))])\<rparr>,
         database'))
   \<and> (upload py request database = (Inl (HttpError error), database') \<longrightarrow>
      route_upload env py request database =
        (Inr \<lparr>status_code = error_status_code error,
              response_headers = [(''Content-Type'', ''application/json'')],
              response_body = Json (JDict [(''success'', JBool False),
                                           (''message'', JStr (error_message env error))])\<rparr>,
         database'))
   \<and> error_status_code NotFoundError = 404
   \<and> error_status_code (BadRequestError message) = 400
   \<and> error_message env NotFoundError = not_found_message env
   \<and> error_message env (BadRequestError message) = message"
  by (simp add: route_get_def route_upload_def handle_general_errors_id dispatch_simps
        handle_view_error_eq error_status_code_def error_message_def)

theorem typed_failure_envelope_witness:
  "route_get example_env (get []) example_database 7 =
     (Inr \<lparr>status_code = 404, response_headers = [(''Content-Type'', ''application/json'')],
           response_body = Json (JDict [(''success'', JBool False),
                                        (''message'', JStr ''Not found'')])\<rparr>,
      example_database)
   \<and> route_upload example_env example_python (post ''{}'') empty_database =
     (Inr \<lparr>status_code = 400, response_headers = [(''Content-Type'', ''application/json'')],
           response_body = Json (JDict [(''success'', JBool False),
                                        (''message'', JStr ''cannot decode base64 file'')])\<rparr>,
      empty_database)"
proof
  have "serve example_env (get []) example_database 7 =
      (Inl (HttpError NotFoundError), example_database)"
    by (simp add: serve_def presenter_headers_empty example_env_simps)
  then show "route_get example_env (get []) example_database 7 =
     (Inr \<lparr>status_code = 404, response_headers = [(''Content-Type'', ''application/json'')],
           response_body = Json (JDict [(''success'', JBool False),
                                        (''message'', JStr ''Not found'')])\<rparr>,
      example_database)"
    using typed_failure_envelope [where env = example_env and request = "get []"
        and database = example_database and mediafile_id = 7 and error = NotFoundError
        and database' = example_database]
    by (simp add: example_env_simps)
next
  have "upload example_python (post ''{}'') empty_database =
      (Inl (HttpError (BadRequestError ''cannot decode base64 file'')), empty_database)"
    by (simp add: example_try_json getitem_JDict upload_cases try_media_def)
  then show "route_upload example_env example_python (post ''{}'') empty_database =
     (Inr \<lparr>status_code = 400, response_headers = [(''Content-Type'', ''application/json'')],
           response_body = Json (JDict [(''success'', JBool False),
                                        (''message'', JStr ''cannot decode base64 file'')])\<rparr>,
      empty_database)"
    using typed_failure_envelope [where env = example_env and py = example_python
        and request = "post ''{}''" and database = empty_database
        and error = "BadRequestError ''cannot decode base64 file''"
        and database' = empty_database and message = "''cannot decode base64 file''"]
    by simp
qed

text \<open>
  C9. A retrieval leaves the store as it found it, whether it answers the blob, raises
  \<open>NotFoundError\<close> or raises any other exception: the store returned by \<open>serve\<close>, and by
  the route around it, is the store it was given.
\<close>

theorem retrieval_preserves_store:
  "snd (serve env request database mediafile_id) = database
   \<and> snd (route_get env request database mediafile_id) = database"
proof -
  have "snd (route_get env request database mediafile_id)
      = snd (serve env request database mediafile_id)"
    by (simp add: route_get_def handle_general_errors_id dispatch_def
          split: prod.splits sum.splits exn.splits)
  then show ?thesis by (simp add: serve_snd)
qed

theorem retrieval_preserves_store_witness:
  "snd (serve example_env (get []) example_database 42) = example_database
   \<and> snd (route_get example_env (get []) example_database 42) = example_database
   \<and> snd (route_get example_env (get []) example_database 7) = example_database"
  using retrieval_preserves_store [of example_env "get []" example_database 42]
    retrieval_preserves_store [of example_env "get []" example_database 7]
  by simp

text \<open>
  C10. \<open>upload\<close> puts no condition on the identifier beyond \<open>int()\<close> accepting it: when
  the body parses, \<open>file\<close> decodes, \<open>mimetype\<close> is present and \<open>int(dejson["id"])\<close> is the
  integer \<open>media_id\<close>, the upload succeeds and the blob is stored under \<open>media_id\<close>. The
  coercion accepts every integer, negative ones too, truncates a float towards zero, and
  parses a string.
\<close>

theorem upload_stores_coerced_id:
  assumes "try_json py request = Some dejson"
    and "try_media dejson = Some media"
    and "getitem dejson ''id'' = Some v"
    and "py_int py v = Some media_id"
    and "getitem dejson ''mimetype'' = Some mimetype"
  shows "upload py request database =
      (Inr \<lparr>status_code = 200, response_headers = [(''Content-Type'', ''application/json'')],
            response_body = Json (JDict [(''success'', JBool True)])\<rparr>,
       database(media_id \<mapsto> (media, mimetype)))
     \<and> py_int py (JInt n) = Some n
     \<and> py_int py (JStr s) = int_str py s
     \<and> py_int py (JFloat (Finite r)) = Some (if 0 \<le> r then \<lfloor>r\<rfloor> else \<lceil>r\<rceil>)"
  using assms try_id_mimetype_Some [OF assms(3,4,5)]
  by (simp add: upload_cases py_int_def float_int_def)

theorem upload_stores_coerced_id_witness:
  "snd (upload example_python
      (post ''{\"id\": -5, \"mimetype\": \"image/png\", \"file\": \"aGk=\"}'') empty_database)
     = empty_database(- 5 \<mapsto> (''hi'', JStr ''image/png''))
   \<and> snd (upload example_python
      (post ''{\"id\": \"-5\", \"mimetype\": \"image/png\", \"file\": \"aGk=\"}'') empty_database)
     = empty_database(- 5 \<mapsto> (''hi'', JStr ''image/png''))
   \<and> snd (upload example_python
      (post ''{\"id\": 3.75, \"mimetype\": \"image/png\", \"file\": \"aGk=\"}'') empty_database)
     = empty_database(3 \<mapsto> (''hi'', JStr ''image/png''))"
proof (intro conjI)
  let ?int = "JDict [(''id'', JInt (- 5)), (''mimetype'', JStr ''image/png''), (''file'', JStr ''aGk='')]"
  have "try_media ?int = Some ''hi''" "getitem ?int ''id'' = Some (JInt (- 5))"
    "py_int example_python (JInt (- 5)) = Some (- 5)"
    "getitem ?int ''mimetype'' = Some (JStr ''image/png'')"
    by (simp_all add: try_media_file getitem_JDict b64decode_hi py_int_def)
  from upload_stores_coerced_id [OF example_try_json(2) this, of empty_database]
  show "snd (upload example_python
      (post ''{\"id\": -5, \"mimetype\": \"image/png\", \"file\": \"aGk=\"}'') empty_database)
     = empty_database(- 5 \<mapsto> (''hi'', JStr ''image/png''))"
    by simp
next
  let ?str = "JDict [(''id'', JStr ''-5''), (''mimetype'', JStr ''image/png''), (''file'', JStr ''aGk='')]"
  have "int_str example_python ''-5'' = Some (- 5)"
    by (simp add: example_python_def)
  then have "try_media ?str = Some ''hi''" "getitem ?str ''id'' = Some (JStr ''-5'')"
    "py_int example_python (JStr ''-5'') = Some (- 5)"
    "getitem ?str ''mimetype'' = Some (JStr ''image/png'')"
    by (simp_all add: try_media_file getitem_JDict b64decode_hi py_int_def)
  from upload_stores_coerced_id [OF example_try_json(3) this, of empty_database]
  show "snd (upload example_python
      (post ''{\"id\": \"-5\", \"mimetype\": \"image/png\", \"file\": \"aGk=\"}'') empty_database)
     = empty_database(- 5 \<mapsto> (''hi'', JStr ''image/png''))"
    by simp
next
  let ?float = "JDict [(''id'', JFloat (Finite 3.75)), (''mimetype'', JStr ''image/png''),
                       (''file'', JStr ''aGk='')]"
  have "try_media ?float = Some ''hi''" "getitem ?float ''id'' = Some (JFloat (Finite 3.75))"
    "py_int example_python (JFloat (Finite 3.75)) = Some 3"
    "getitem ?float ''mimetype'' = Some (JStr ''image/png'')"
    by (simp_all add: try_media_file getitem_JDict b64decode_hi py_int_def float_int_def)
  from upload_stores_coerced_id [OF example_try_json(4) this, of empty_database]
  show "snd (upload example_python
      (post ''{\"id\": 3.75, \"mimetype\": \"image/png\", \"file\": \"aGk=\"}'') empty_database)
     = empty_database(3 \<mapsto> (''hi'', JStr ''image/png''))"
    by simp
qed


end
